theory Spec2Isabelle
  imports Main
begin

section \<open>Values exchanged with the generation service\<close>

text \<open>
  A parsed JSON value, as \<open>response.json()\<close> resolves to. Numbers are carried and never
  computed with. An object is the list of its properties; a property is read with
  \<open>map_of\<close>. The JavaScript value \<open>undefined\<close> is \<open>None\<close> of an option type and
  \<open>null\<close> is \<open>JNull\<close>.
\<close>

datatype json =
    JNull
  | JBool bool
  | JNum int
  | JStr string
  | JArr "json list"
  | JObj "(string \<times> json) list"

text \<open>
  What \<open>await fetch(...)\<close> gives: the promise rejects with an error carrying a message,
  or it resolves to a response with a numeric status. The second component of a response
  is what \<open>await response.json()\<close> gives for it: the parsed body, or the message of the
  error it rejects with when the body is not JSON.
\<close>

datatype fetch_result =
    Rejected string
  | Response nat "string + json"

text \<open>\<open>response.ok\<close>: the status is in the range 200 to 299.\<close>

definition response_ok :: "nat \<Rightarrow> bool" where
  "response_ok status = (200 \<le> status \<and> status \<le> 299)"

record http_request =
  http_method :: string
  url :: string
  headers :: "(string \<times> string) list"
  body :: "json option"

definition API_BASE_URL :: string where
  "API_BASE_URL = ''https://pjdevos-speechcopilot-production.up.railway.app''"

text \<open>The decimal form of a number, as a template literal prints \<open>response.status\<close>.\<close>

fun digit_char :: "nat \<Rightarrow> char" where
  "digit_char n = char_of (48 + n)"

fun string_of_nat :: "nat \<Rightarrow> string" where
  "string_of_nat n =
     (if n < 10 then [digit_char n]
      else string_of_nat (n div 10) @ [digit_char (n mod 10)])"

section \<open>The wizard data\<close>

text \<open>
  \<open>wizardData\<close> is a JavaScript object with string values: a map from property names to
  strings. Reading a property that the object does not have gives \<open>undefined\<close>, here
  \<open>None\<close>.
\<close>

type_synonym wizard_data = "string \<rightharpoonup> string"

text \<open>The argument of \<open>useState\<close> for \<open>wizardData\<close> (lines 52 to 61).\<close>

definition initial_wizardData :: wizard_data where
  "initial_wizardData =
     [''occasion'' \<mapsto> '''',
      ''audience'' \<mapsto> '''',
      ''tone'' \<mapsto> ''formal'',
      ''length'' \<mapsto> ''5'',
      ''template'' \<mapsto> '''',
      ''topic'' \<mapsto> '''',
      ''additionalContext'' \<mapsto> '''',
      ''language'' \<mapsto> ''english'']"

text \<open>The operator \<open>!\<close> on a string or \<open>undefined\<close>: true on \<open>undefined\<close> and on the empty string.\<close>

fun js_not :: "string option \<Rightarrow> bool" where
  "js_not None = True"
| "js_not (Some v) = (v = [])"

text \<open>\<open>v || ''\<close> on a string or \<open>undefined\<close>.\<close>

fun or_empty :: "string option \<Rightarrow> string" where
  "or_empty None = ''''"
| "or_empty (Some v) = (if v = [] then '''' else v)"

section \<open>speechAPI\<close>

text \<open>
  \<open>JSON.stringify\<close> of an object literal whose property values are strings or
  \<open>undefined\<close>: a property whose value is \<open>undefined\<close> is left out, the others are
  written in order. The result is given as the JSON object that the text denotes.
\<close>

fun JSON_stringify :: "(string \<times> string option) list \<Rightarrow> json" where
  "JSON_stringify props =
     JObj (concat (map (\<lambda>(k, v). case v of None \<Rightarrow> [] | Some t \<Rightarrow> [(k, JStr t)]) props))"

text \<open>The object literal of lines 25 to 34.\<close>

definition request_payload :: "wizard_data \<Rightarrow> (string \<times> string option) list" where
  "request_payload wizardData =
     [(''occasion'', wizardData ''occasion''),
      (''audience'', wizardData ''audience''),
      (''tone'', wizardData ''tone''),
      (''length'', wizardData ''length''),
      (''template'', wizardData ''template''),
      (''topic'', Some (or_empty (wizardData ''topic''))),
      (''additional_context'', Some (or_empty (wizardData ''additionalContext''))),
      (''language'', wizardData ''language'')]"

text \<open>The request that \<open>speechAPI.generateSpeech\<close> hands to \<open>fetch\<close> (lines 20 to 35).\<close>

definition generate_request :: "wizard_data \<Rightarrow> http_request" where
  "generate_request wizardData =
     \<lparr>http_method = ''POST'',
      url = API_BASE_URL @ ''/api/generate-speech'',
      headers = [(''Content-Type'', ''application/json'')],
      body = Some (JSON_stringify (request_payload wizardData))\<rparr>"

text \<open>The request of \<open>speechAPI.testConnection\<close> (line 10): \<open>fetch\<close> with a URL only.\<close>

definition health_request :: http_request where
  "health_request =
     \<lparr>http_method = ''GET'',
      url = API_BASE_URL @ ''/health'',
      headers = [],
      body = None\<rparr>"

text \<open>
  \<open>speechAPI.testConnection\<close> (lines 8 to 16), from the outcome of its \<open>fetch\<close>: \<open>Inl\<close>
  is the message of the error it throws. The \<open>catch\<close> logs and rethrows.
\<close>

fun testConnection_settle :: "fetch_result \<Rightarrow> string + json" where
  "testConnection_settle (Rejected msg) = Inl msg"
| "testConnection_settle (Response status parsed) =
     (case parsed of Inl msg \<Rightarrow> Inl msg | Inr data \<Rightarrow> Inr data)"

definition testConnection :: "(http_request \<Rightarrow> fetch_result) \<Rightarrow> string + json" where
  "testConnection fetch = testConnection_settle (fetch health_request)"

text \<open>
  \<open>speechAPI.generateSpeech\<close> (lines 18 to 47) after its \<open>fetch\<close> has settled: a
  response that is not ok throws before the body is read.
\<close>

fun generateSpeech_settle :: "fetch_result \<Rightarrow> string + json" where
  "generateSpeech_settle (Rejected msg) = Inl msg"
| "generateSpeech_settle (Response status parsed) =
     (if \<not> response_ok status then Inl (''HTTP error! status: '' @ string_of_nat status)
      else case parsed of Inl msg \<Rightarrow> Inl msg | Inr data \<Rightarrow> Inr data)"

definition speechAPI_generateSpeech ::
    "(http_request \<Rightarrow> fetch_result) \<Rightarrow> wizard_data \<Rightarrow> string + json" where
  "speechAPI_generateSpeech fetch wizardData =
     generateSpeech_settle (fetch (generate_request wizardData))"

section \<open>The App component\<close>

record generated_speech =
  speech :: "json option"
  "structure" :: "json option"
  suggestions :: "json option"
  metadata :: "(string \<times> string option) list"

text \<open>
  The five state variables of \<open>App\<close> (lines 51 to 64); \<open>null\<close> is \<open>None\<close>. The field
  \<open>pending\<close> is not a variable of the component: it lists the calls of the handler
  \<open>generateSpeech\<close> that wait for their \<open>fetch\<close>, each with the \<open>wizardData\<close> its
  closure holds.
\<close>

record session =
  currentStep :: int
  wizardData :: wizard_data
  generatedSpeech :: "generated_speech option"
  isLoading :: bool
  error :: "string option"
  pending :: "wizard_data list"

definition initial_session :: session where
  "initial_session =
     \<lparr>currentStep = 0,
      wizardData = initial_wizardData,
      generatedSpeech = None,
      isLoading = False,
      error = None,
      pending = []\<rparr>"

text \<open>
  Reading a property of the parsed result (lines 78 to 80): on \<open>null\<close> the read throws a
  TypeError, on an object it gives the property or \<open>undefined\<close>, and a boolean, a number,
  a string or an array has none of the three properties read here.
\<close>

definition null_read_message :: "string \<Rightarrow> string" where
  "null_read_message k = ''Cannot read properties of null (reading '' @ [CHR 39] @ k @ [CHR 39] @ '')''"

fun read_property :: "json \<Rightarrow> string \<Rightarrow> string + json option" where
  "read_property JNull k = Inl (null_read_message k)"
| "read_property (JObj props) k = Inr (map_of props k)"
| "read_property other k = Inr None"

text \<open>The object literal of lines 77 to 89, built from the result and the closure's \<open>wizardData\<close>.\<close>

definition tag_result :: "wizard_data \<Rightarrow> json \<Rightarrow> string + generated_speech" where
  "tag_result wd result =
     (case read_property result ''speech'' of
        Inl msg \<Rightarrow> Inl msg
      | Inr sp \<Rightarrow>
     (case read_property result ''structure'' of
        Inl msg \<Rightarrow> Inl msg
      | Inr st \<Rightarrow>
     (case read_property result ''suggestions'' of
        Inl msg \<Rightarrow> Inl msg
      | Inr su \<Rightarrow>
          Inr \<lparr>speech = sp,
               structure = st,
               suggestions = su,
               metadata =
                 [(''occasion'', wd ''occasion''),
                  (''audience'', wd ''audience''),
                  (''tone'', wd ''tone''),
                  (''length'', wd ''length''),
                  (''template'', wd ''template''),
                  (''language'', wd ''language'')]\<rparr>)))"

text \<open>
  The handler \<open>generateSpeech\<close> (lines 66 to 99) in two halves. Up to its \<open>await\<close>: lines
  67 and 68, and the request is sent with the \<open>wizardData\<close> of this render.
\<close>

definition generateSpeech_begin :: "session \<Rightarrow> session" where
  "generateSpeech_begin s =
     s\<lparr>isLoading := True, error := None, pending := pending s @ [wizardData s]\<rparr>"

text \<open>
  After the \<open>await\<close>: \<open>wd\<close> is the \<open>wizardData\<close> of the closure, \<open>s\<close> the state at that
  moment. The \<open>catch\<close> takes every error of the \<open>try\<close> block, the \<open>finally\<close> runs on both
  paths.
\<close>

definition generateSpeech_resume :: "wizard_data \<Rightarrow> fetch_result \<Rightarrow> session \<Rightarrow> session" where
  "generateSpeech_resume wd r s =
     (case generateSpeech_settle r of
        Inl msg \<Rightarrow> s\<lparr>error := Some (''Failed to generate speech: '' @ msg), isLoading := False\<rparr>
      | Inr result \<Rightarrow>
          (case tag_result wd result of
             Inl msg \<Rightarrow> s\<lparr>error := Some (''Failed to generate speech: '' @ msg), isLoading := False\<rparr>
           | Inr g \<Rightarrow> s\<lparr>generatedSpeech := Some g, currentStep := 4, isLoading := False\<rparr>))"

text \<open>The handler run from its call to its end with no other event in between.\<close>

definition generateSpeech :: "(http_request \<Rightarrow> fetch_result) \<Rightarrow> session \<Rightarrow> session" where
  "generateSpeech fetch s =
     generateSpeech_resume (wizardData s) (fetch (generate_request (wizardData s)))
       (s\<lparr>isLoading := True, error := None\<rparr>)"

text \<open>\<open>testAPI\<close> (lines 101 to 109): the text it passes to \<open>alert\<close>. It sets no state.\<close>

definition testAPI :: "(http_request \<Rightarrow> fetch_result) \<Rightarrow> string" where
  "testAPI fetch =
     (case testConnection fetch of
        Inr health \<Rightarrow> ''API connection successful!''
      | Inl msg \<Rightarrow> ''API connection failed: '' @ msg)"

text \<open>\<open>resetWizard\<close> (lines 111 to 124).\<close>

definition resetWizard :: "session \<Rightarrow> session" where
  "resetWizard s =
     s\<lparr>currentStep := 0,
       wizardData :=
         [''occasion'' \<mapsto> '''',
          ''audience'' \<mapsto> '''',
          ''tone'' \<mapsto> ''formal'',
          ''length'' \<mapsto> ''5'',
          ''template'' \<mapsto> '''',
          ''topic'' \<mapsto> '''',
          ''additionalContext'' \<mapsto> ''''],
       generatedSpeech := None,
       error := None\<rparr>"

text \<open>\<open>nextStep\<close> and \<open>prevStep\<close> (lines 126 to 132).\<close>

definition nextStep :: "session \<Rightarrow> session" where
  "nextStep s = (if currentStep s < 4 then s\<lparr>currentStep := currentStep s + 1\<rparr> else s)"

definition prevStep :: "session \<Rightarrow> session" where
  "prevStep s = (if currentStep s > 0 then s\<lparr>currentStep := currentStep s - 1\<rparr> else s)"

text \<open>
  Every \<open>onChange\<close> of a form control and the \<open>onClick\<close> of a template card is
  \<open>setWizardData({...wizardData, key: value})\<close> for one key (lines 144 to 282).
\<close>

definition setField :: "string \<Rightarrow> string \<Rightarrow> session \<Rightarrow> session" where
  "setField k v s = s\<lparr>wizardData := (wizardData s)(k \<mapsto> v)\<rparr>"

fun setFields :: "(string \<times> string) list \<Rightarrow> session \<Rightarrow> session" where
  "setFields [] s = s"
| "setFields ((k, v) # kvs) s = setFields kvs (setField k v s)"

subsection \<open>The buttons\<close>

text \<open>
  A button calls its handler when it is rendered and not disabled; a click on a disabled
  button calls nothing. A click on Next is the wizard's advance, a click on Previous or on
  Go Back and Edit its retreat, a click on Generate Speech its submit, a click on
  Generate New Speech its reset. The Next button (lines 364 to 382) is rendered below step 3 and
  carries the guards of steps 0 and 2 in its \<open>disabled\<close> attribute.
\<close>

definition next_rendered :: "session \<Rightarrow> bool" where
  "next_rendered s = (currentStep s < 4 \<and> currentStep s < 3)"

definition next_disabled :: "session \<Rightarrow> bool" where
  "next_disabled s =
     ((currentStep s = 0 \<and> (js_not (wizardData s ''occasion'') \<or> js_not (wizardData s ''audience'')))
      \<or> (currentStep s = 2 \<and> js_not (wizardData s ''template'')))"

definition next_click :: "session \<Rightarrow> session" where
  "next_click s = (if next_rendered s then (if next_disabled s then s else nextStep s) else s)"

text \<open>
  The Previous button (lines 364 to 370) below step 4 and above step 0, and the button
  Go Back and Edit of step 4 (lines 301 to 315), shown with a result.
\<close>

definition prev_rendered :: "session \<Rightarrow> bool" where
  "prev_rendered s =
     ((currentStep s < 4 \<and> currentStep s > 0)
      \<or> (currentStep s = 4 \<and> generatedSpeech s \<noteq> None))"

definition previous_click :: "session \<Rightarrow> session" where
  "previous_click s = (if prev_rendered s then prevStep s else s)"

text \<open>The button of step 3 (lines 287 to 293), disabled while \<open>isLoading\<close>.\<close>

definition generate_click :: "session \<Rightarrow> session" where
  "generate_click s =
     (if currentStep s = 3 then (if isLoading s then s else generateSpeech_begin s) else s)"

text \<open>The button Generate New Speech of step 4 (lines 301 to 316), shown with a result.\<close>

definition new_speech_click :: "session \<Rightarrow> session" where
  "new_speech_click s =
     (if currentStep s = 4 then (if generatedSpeech s = None then s else resetWizard s) else s)"

subsection \<open>Events\<close>

text \<open>
  One event is handled at a time. \<open>Settled r\<close>: the \<open>fetch\<close> of the oldest waiting call
  of \<open>generateSpeech\<close> settles with \<open>r\<close> and the call runs to its end. \<open>SetField\<close> is
  taken at every step and for every key and value, which covers the controls of each
  step.
\<close>

datatype event =
    SetField string string
  | Next
  | Previous
  | Generate
  | NewSpeech
  | Settled fetch_result

fun handle :: "event \<Rightarrow> session \<Rightarrow> session" where
  "handle (SetField k v) s = setField k v s"
| "handle Next s = next_click s"
| "handle Previous s = previous_click s"
| "handle Generate s = generate_click s"
| "handle NewSpeech s = new_speech_click s"
| "handle (Settled r) s =
     (case pending s of
        [] \<Rightarrow> s
      | wd # rest \<Rightarrow> generateSpeech_resume wd r (s\<lparr>pending := rest\<rparr>))"

fun run :: "event list \<Rightarrow> session \<Rightarrow> session" where
  "run [] s = s"
| "run (e # es) s = run es (handle e s)"

subsection \<open>Concrete sessions\<close>

text \<open>A service that answers every request with \<open>r\<close>.\<close>

definition answering :: "fetch_result \<Rightarrow> http_request \<Rightarrow> fetch_result" where
  "answering r req = r"

definition hello_response :: fetch_result where
  "hello_response =
     Response 200
       (Inr (JObj [(''speech'', JStr ''Hello''), (''structure'', JArr []), (''suggestions'', JArr [])]))"

text \<open>From the first render to the review step, with every guard met.\<close>

definition to_review :: "event list" where
  "to_review =
     [SetField ''occasion'' ''conference'',
      SetField ''audience'' ''media'',
      SetField ''topic'' ''Trade'',
      Next,
      Next,
      SetField ''template'' ''persuasive'',
      Next]"

definition review_session :: session where
  "review_session = run to_review initial_session"

text \<open>A first speech is generated, and the wizard is started again from its result step.\<close>

definition first_speech :: "event list" where
  "first_speech = to_review @ [Generate, Settled hello_response]"

definition second_round :: "event list" where
  "second_round =
     first_speech @
     [NewSpeech,
      SetField ''occasion'' ''commemoration'',
      SetField ''audience'' ''diplomats'',
      Next,
      Next,
      SetField ''template'' ''commemorative'',
      Next,
      Generate]"

section \<open>Evaluation\<close>

declare string_of_nat.simps [simp del]

lemmas handler_defs =
  setField_def nextStep_def prevStep_def resetWizard_def
  generateSpeech_begin_def generateSpeech_resume_def tag_result_def response_ok_def

lemmas click_defs =
  next_rendered_def next_disabled_def next_click_def prev_rendered_def previous_click_def
  generate_click_def new_speech_click_def

lemma string_of_nat_500: "string_of_nat 500 = ''500''"
  by code_simp

lemma run_append: "run (es @ es') s = run es' (run es s)"
  by (induction es arbitrary: s) auto

lemma review_session_eq:
  "review_session =
     \<lparr>currentStep = 3,
      wizardData =
        initial_wizardData
          (''occasion'' \<mapsto> ''conference'', ''audience'' \<mapsto> ''media'',
           ''topic'' \<mapsto> ''Trade'', ''template'' \<mapsto> ''persuasive''),
      generatedSpeech = None,
      isLoading = False,
      error = None,
      pending = []\<rparr>"
  by (simp add: review_session_def to_review_def initial_session_def initial_wizardData_def
      handler_defs click_defs)

lemma result_session_eq:
  "run first_speech initial_session =
     review_session
       \<lparr>currentStep := 4,
        generatedSpeech :=
          Some \<lparr>speech = Some (JStr ''Hello''),
                structure = Some (JArr []),
                suggestions = Some (JArr []),
                metadata =
                  [(''occasion'', Some ''conference''),
                   (''audience'', Some ''media''),
                   (''tone'', Some ''formal''),
                   (''length'', Some ''5''),
                   (''template'', Some ''persuasive''),
                   (''language'', Some ''english'')]\<rparr>\<rparr>"
proof -
  have "run first_speech initial_session = run [Generate, Settled hello_response] review_session"
    by (simp add: first_speech_def review_session_def run_append)
  then show ?thesis
    by (simp add: review_session_eq hello_response_def handler_defs click_defs
        initial_wizardData_def)
qed

section \<open>The fields are independent of the step\<close>

lemma setFields_currentStep: "currentStep (setFields kvs s) = currentStep s"
  by (induction kvs arbitrary: s) (auto simp: setField_def)

lemma setFields_generatedSpeech: "generatedSpeech (setFields kvs s) = generatedSpeech s"
  by (induction kvs arbitrary: s) (auto simp: setField_def)

lemma setFields_pending: "pending (setFields kvs s) = pending s"
  by (induction kvs arbitrary: s) (auto simp: setField_def)

lemma setFields_error: "error (setFields kvs s) = error s"
  by (induction kvs arbitrary: s) (auto simp: setField_def)

lemma js_not_iff: "js_not v \<longleftrightarrow> \<not> (\<exists>a. v = Some a \<and> a \<noteq> [])"
  by (cases v) auto

section \<open>Advancing\<close>

text \<open>
  C1. After any sequence of field settings, a click on Next at step 0 changes nothing
  unless \<open>occasion\<close> and \<open>audience\<close> both hold a non-empty string, and a click on Next
  at step 2 changes nothing unless \<open>template\<close> holds a non-empty string; where the guard
  holds, and at step 1, which has none, the click adds one to \<open>currentStep\<close> and changes
  nothing else. From step 3 on there is no Next button.
\<close>

theorem next_click_guarded:
  "next_click (setFields kvs s) =
     (let s' = setFields kvs s in
      if currentStep s = 0 then
        (if (\<exists>a. wizardData s' ''occasion'' = Some a \<and> a \<noteq> [])
            \<and> (\<exists>b. wizardData s' ''audience'' = Some b \<and> b \<noteq> [])
         then s'\<lparr>currentStep := 1\<rparr> else s')
      else if currentStep s = 2 then
        (if (\<exists>t. wizardData s' ''template'' = Some t \<and> t \<noteq> [])
         then s'\<lparr>currentStep := 3\<rparr> else s')
      else if currentStep s < 3 then s'\<lparr>currentStep := currentStep s + 1\<rparr>
      else s')"
  by (auto simp: Let_def next_click_def next_rendered_def next_disabled_def nextStep_def
      setFields_currentStep js_not_iff)

theorem next_click_guarded_witness:
  "currentStep (next_click (setFields [(''occasion'', ''conference''), (''audience'', '''')] initial_session)) = 0
   \<and> currentStep (next_click (setFields [(''occasion'', ''conference''), (''audience'', ''media'')] initial_session)) = 1
   \<and> currentStep (next_click (setFields [(''template'', '''')] (initial_session\<lparr>currentStep := 2\<rparr>))) = 2
   \<and> currentStep (next_click (setFields [(''template'', ''persuasive'')] (initial_session\<lparr>currentStep := 2\<rparr>))) = 3"
  using
    next_click_guarded [of "[(''occasion'', ''conference''), (''audience'', '''')]" initial_session]
    next_click_guarded [of "[(''occasion'', ''conference''), (''audience'', ''media'')]" initial_session]
    next_click_guarded [of "[(''template'', '''')]" "initial_session\<lparr>currentStep := 2\<rparr>"]
    next_click_guarded [of "[(''template'', ''persuasive'')]" "initial_session\<lparr>currentStep := 2\<rparr>"]
  by (simp add: initial_session_def initial_wizardData_def setField_def)

section \<open>Submitting\<close>

text \<open>
  C2. At step 3, when the service answers the request with status 200 and a JSON object
  whose \<open>speech\<close> is \<open>"Hello"\<close>, the handler \<open>generateSpeech\<close> ends with \<open>currentStep\<close> 4,
  a result whose \<open>speech\<close> is \<open>"Hello"\<close>, no error and \<open>isLoading\<close> false.
\<close>

theorem generateSpeech_success:
  "currentStep s = 3 \<Longrightarrow>
   fetch (generate_request (wizardData s)) = Response 200 (Inr (JObj props)) \<Longrightarrow>
   map_of props ''speech'' = Some (JStr ''Hello'') \<Longrightarrow>
   currentStep (generateSpeech fetch s) = 4
   \<and> map_option speech (generatedSpeech (generateSpeech fetch s)) = Some (Some (JStr ''Hello''))
   \<and> error (generateSpeech fetch s) = None
   \<and> isLoading (generateSpeech fetch s) = False"
  by (simp add: generateSpeech_def generateSpeech_resume_def response_ok_def tag_result_def)

theorem generateSpeech_success_witness:
  "currentStep (generateSpeech (answering hello_response) review_session) = 4
   \<and> map_option speech (generatedSpeech (generateSpeech (answering hello_response) review_session))
       = Some (Some (JStr ''Hello''))
   \<and> error (generateSpeech (answering hello_response) review_session) = None
   \<and> isLoading (generateSpeech (answering hello_response) review_session) = False"
proof -
  have step: "currentStep review_session = 3"
    by (simp add: review_session_eq)
  have answer:
    "answering hello_response (generate_request (wizardData review_session)) =
       Response 200
         (Inr (JObj [(''speech'', JStr ''Hello''), (''structure'', JArr []), (''suggestions'', JArr [])]))"
    by (simp add: answering_def hello_response_def)
  have hello:
    "map_of [(''speech'', JStr ''Hello''), (''structure'', JArr []), (''suggestions'', JArr [])] ''speech''
       = Some (JStr ''Hello'')"
    by simp
  show ?thesis
    by (rule generateSpeech_success
        [of review_session "answering hello_response"
          "[(''speech'', JStr ''Hello''), (''structure'', JArr []), (''suggestions'', JArr [])]",
         OF step answer hello])
qed

text \<open>
  C3. At step 3, when the request is rejected or answered with a status outside 200 to
  299, the handler \<open>generateSpeech\<close> ends in the state it started from but for two
  fields: \<open>isLoading\<close> is false and \<open>error\<close> is the text
  \<open>Failed to generate speech: \<close> followed by the message of the rejection or by
  \<open>HTTP error! status: \<close> and the decimal status. So \<open>currentStep\<close> is still 3, the
  error is not empty, and the result and \<open>wizardData\<close> are as before.
\<close>

theorem generateSpeech_failure:
  "currentStep s = 3 \<Longrightarrow>
   (fetch (generate_request (wizardData s)) = Rejected msg \<longrightarrow>
      generateSpeech fetch s =
        s\<lparr>isLoading := False, error := Some (''Failed to generate speech: '' @ msg)\<rparr>)
   \<and> (fetch (generate_request (wizardData s)) = Response status parsed \<and> \<not> response_ok status \<longrightarrow>
      generateSpeech fetch s =
        s\<lparr>isLoading := False,
          error := Some (''Failed to generate speech: HTTP error! status: '' @ string_of_nat status)\<rparr>)
   \<and> (fetch (generate_request (wizardData s)) = Rejected msg
        \<or> (fetch (generate_request (wizardData s)) = Response status parsed \<and> \<not> response_ok status) \<longrightarrow>
      currentStep (generateSpeech fetch s) = 3
      \<and> (\<exists>text. error (generateSpeech fetch s) = Some text \<and> text \<noteq> [])
      \<and> isLoading (generateSpeech fetch s) = False
      \<and> generatedSpeech (generateSpeech fetch s) = generatedSpeech s
      \<and> wizardData (generateSpeech fetch s) = wizardData s)"
  by (auto simp: generateSpeech_def generateSpeech_resume_def)

theorem generateSpeech_failure_witness:
  "generateSpeech (answering (Response 500 (Inl ''Unexpected token''))) review_session =
     review_session\<lparr>error := Some ''Failed to generate speech: HTTP error! status: 500''\<rparr>
   \<and> generateSpeech (answering (Rejected ''Failed to fetch'')) review_session =
     review_session\<lparr>error := Some ''Failed to generate speech: Failed to fetch''\<rparr>
   \<and> currentStep (generateSpeech (answering (Response 500 (Inl ''Unexpected token''))) review_session) = 3
   \<and> currentStep (generateSpeech (answering (Rejected ''Failed to fetch'')) review_session) = 3"
proof -
  have step: "currentStep review_session = 3"
    by (simp add: review_session_eq)
  show ?thesis
    using
      generateSpeech_failure [OF step, of "answering (Response 500 (Inl ''Unexpected token''))"
        "''''" 500 "Inl ''Unexpected token''"]
      generateSpeech_failure [OF step, of "answering (Rejected ''Failed to fetch'')"
        "''Failed to fetch''" 0 "Inl ''''"]
    by (simp add: answering_def response_ok_def string_of_nat_500 review_session_eq)
qed

text \<open>
  C5. The claim names seven fields in the snapshot. The result of a successful submit
  carries six: \<open>topic\<close> is set in the session, and the metadata has no such entry.
\<close>

theorem metadata_has_no_topic:
  "wizardData review_session ''topic'' = Some ''Trade''
   \<and> generatedSpeech (generateSpeech (answering hello_response) review_session) =
       Some \<lparr>speech = Some (JStr ''Hello''),
             structure = Some (JArr []),
             suggestions = Some (JArr []),
             metadata =
               [(''occasion'', Some ''conference''),
                (''audience'', Some ''media''),
                (''tone'', Some ''formal''),
                (''length'', Some ''5''),
                (''template'', Some ''persuasive''),
                (''language'', Some ''english'')]\<rparr>"
  by (simp add: review_session_eq generateSpeech_def generateSpeech_resume_def tag_result_def
      response_ok_def answering_def hello_response_def initial_wizardData_def)

lemma resume_metadata:
  "error s = None \<Longrightarrow> error (generateSpeech_resume wd r s) = None \<Longrightarrow>
   map_option metadata (generatedSpeech (generateSpeech_resume wd r s)) =
     Some [(''occasion'', wd ''occasion''), (''audience'', wd ''audience''), (''tone'', wd ''tone''),
           (''length'', wd ''length''), (''template'', wd ''template''), (''language'', wd ''language'')]"
  by (auto simp: generateSpeech_resume_def tag_result_def split: sum.splits)

text \<open>
  C5, as amended. A call of \<open>generateSpeech\<close> that ends without an error stores a result
  whose metadata holds six fields, \<open>occasion\<close>, \<open>audience\<close>, \<open>tone\<close>, \<open>length\<close>,
  \<open>template\<close> and \<open>language\<close>, with the values \<open>wizardData\<close> had when the call began.
  Fields set while the request waits and fields set after the result is stored do not
  change it.
\<close>

theorem metadata_snapshot:
  assumes "pending s = []"
    and "error (handle (Settled r) (setFields during (generateSpeech_begin s))) = None"
  shows "map_option metadata
           (generatedSpeech
              (setFields after (handle (Settled r) (setFields during (generateSpeech_begin s))))) =
         Some [(''occasion'', wizardData s ''occasion''),
               (''audience'', wizardData s ''audience''),
               (''tone'', wizardData s ''tone''),
               (''length'', wizardData s ''length''),
               (''template'', wizardData s ''template''),
               (''language'', wizardData s ''language'')]"
proof -
  define s1 where "s1 = setFields during (generateSpeech_begin s)"
  have waiting: "pending s1 = [wizardData s]"
    using assms(1) by (simp add: s1_def setFields_pending generateSpeech_begin_def)
  have cleared: "error (s1\<lparr>pending := []\<rparr>) = None"
    by (simp add: s1_def setFields_error generateSpeech_begin_def)
  have settled: "handle (Settled r) s1 = generateSpeech_resume (wizardData s) r (s1\<lparr>pending := []\<rparr>)"
    using waiting by simp
  from assms(2) have "error (generateSpeech_resume (wizardData s) r (s1\<lparr>pending := []\<rparr>)) = None"
    using settled by (simp add: s1_def)
  from resume_metadata [OF cleared this] show ?thesis
    using settled by (simp add: s1_def setFields_generatedSpeech)
qed

theorem metadata_snapshot_witness:
  "map_option metadata
     (generatedSpeech
        (setFields [(''occasion'', ''commemoration'')]
           (handle (Settled hello_response)
              (setFields [(''language'', ''dutch''), (''topic'', ''Climate'')]
                 (generateSpeech_begin review_session))))) =
   Some [(''occasion'', Some ''conference''),
         (''audience'', Some ''media''),
         (''tone'', Some ''formal''),
         (''length'', Some ''5''),
         (''template'', Some ''persuasive''),
         (''language'', Some ''english'')]"
proof -
  have idle: "pending review_session = []"
    by (simp add: review_session_eq)
  have ok:
    "error (handle (Settled hello_response)
       (setFields [(''language'', ''dutch''), (''topic'', ''Climate'')]
          (generateSpeech_begin review_session))) = None"
    by (simp add: review_session_eq hello_response_def handler_defs)
  show ?thesis
    using metadata_snapshot [OF idle ok, of "[(''occasion'', ''commemoration'')]"]
    by (simp add: review_session_eq initial_wizardData_def)
qed

section \<open>One request at a time\<close>

lemma resume_pending:
  "pending (generateSpeech_resume wd r s) = pending s
   \<and> isLoading (generateSpeech_resume wd r s) = False"
  by (simp add: generateSpeech_resume_def split: sum.splits)

lemma handle_in_flight:
  assumes "length (pending s) \<le> 1" and "isLoading s = (pending s \<noteq> [])"
  shows "length (pending (handle e s)) \<le> 1 \<and> isLoading (handle e s) = (pending (handle e s) \<noteq> [])"
proof (cases e)
  case (Settled r)
  then show ?thesis
    using assms by (cases "pending s") (auto simp: resume_pending)
qed (use assms in \<open>auto simp: handler_defs click_defs\<close>)

lemma run_in_flight:
  "length (pending s) \<le> 1 \<Longrightarrow> isLoading s = (pending s \<noteq> []) \<Longrightarrow>
   length (pending (run evs s)) \<le> 1 \<and> isLoading (run evs s) = (pending (run evs s) \<noteq> [])"
proof (induction evs arbitrary: s)
  case Nil
  then show ?case by simp
next
  case (Cons e evs)
  from handle_in_flight [OF Cons.prems] Cons.IH [of "handle e s"]
  show ?case by simp
qed

text \<open>
  C7. A click on the button of step 3 while \<open>isLoading\<close> is true changes nothing: no
  request is added to those that wait. A click at step 3 while \<open>isLoading\<close> is false
  adds one request. After every sequence of events from the first render at most one
  request waits, and \<open>isLoading\<close> is true exactly while one does.
\<close>

theorem one_request_in_flight:
  "(isLoading s \<longrightarrow> generate_click s = s)
   \<and> (currentStep s = 3 \<and> \<not> isLoading s \<longrightarrow> pending (generate_click s) = pending s @ [wizardData s])
   \<and> length (pending (run evs initial_session)) \<le> 1
   \<and> isLoading (run evs initial_session) = (pending (run evs initial_session) \<noteq> [])"
proof -
  have "length (pending initial_session) \<le> 1"
    and "isLoading initial_session = (pending initial_session \<noteq> [])"
    by (simp_all add: initial_session_def)
  from run_in_flight [OF this] show ?thesis
    by (simp add: generate_click_def generateSpeech_begin_def)
qed

theorem one_request_in_flight_witness:
  "isLoading (generate_click review_session)
   \<and> generate_click (generate_click review_session) = generate_click review_session
   \<and> pending (generate_click review_session) = [wizardData review_session]
   \<and> length (pending (run (to_review @ [Generate, Generate]) initial_session)) \<le> 1"
  using one_request_in_flight [of "generate_click review_session" "to_review @ [Generate, Generate]"]
    one_request_in_flight [of review_session "[]"]
  by (simp add: review_session_eq generate_click_def generateSpeech_begin_def)

section \<open>The step stays between 0 and 4\<close>

lemma resume_step_range:
  "0 \<le> currentStep s \<Longrightarrow> currentStep s \<le> 4 \<Longrightarrow>
   0 \<le> currentStep (generateSpeech_resume wd r s) \<and> currentStep (generateSpeech_resume wd r s) \<le> 4"
  by (simp add: generateSpeech_resume_def split: sum.splits)

lemma handle_step_range:
  assumes "0 \<le> currentStep s" and "currentStep s \<le> 4"
  shows "0 \<le> currentStep (handle e s) \<and> currentStep (handle e s) \<le> 4"
proof (cases e)
  case (Settled r)
  then show ?thesis
    using assms by (cases "pending s") (simp_all add: resume_step_range)
qed (use assms in \<open>auto simp: handler_defs click_defs\<close>)

lemma run_step_range:
  "0 \<le> currentStep s \<Longrightarrow> currentStep s \<le> 4 \<Longrightarrow>
   0 \<le> currentStep (run evs s) \<and> currentStep (run evs s) \<le> 4"
proof (induction evs arbitrary: s)
  case Nil
  then show ?case by simp
next
  case (Cons e evs)
  from handle_step_range [OF Cons.prems] Cons.IH [of "handle e s"]
  show ?case by simp
qed

text \<open>
  C8. From a state whose \<open>currentStep\<close> is between 0 and 4, every sequence of events and
  every handler called on its own leaves \<open>currentStep\<close> between 0 and 4. At step 0
  \<open>prevStep\<close> and a click on Previous change nothing; above step 0 \<open>prevStep\<close> takes one
  from \<open>currentStep\<close> and changes no other field, so the result and the error stay. At
  step 4 \<open>nextStep\<close> and a click on Next change nothing.
\<close>

theorem currentStep_in_range:
  assumes "0 \<le> currentStep s" and "currentStep s \<le> 4"
  shows "(0 \<le> currentStep (run evs s) \<and> currentStep (run evs s) \<le> 4)
    \<and> (0 \<le> currentStep (nextStep s) \<and> currentStep (nextStep s) \<le> 4)
    \<and> (0 \<le> currentStep (prevStep s) \<and> currentStep (prevStep s) \<le> 4)
    \<and> (0 \<le> currentStep (resetWizard s) \<and> currentStep (resetWizard s) \<le> 4)
    \<and> (0 \<le> currentStep (setField k v s) \<and> currentStep (setField k v s) \<le> 4)
    \<and> (0 \<le> currentStep (generateSpeech fetch s) \<and> currentStep (generateSpeech fetch s) \<le> 4)
    \<and> (currentStep s = 0 \<longrightarrow> prevStep s = s \<and> previous_click s = s)
    \<and> (currentStep s > 0 \<longrightarrow> prevStep s = s\<lparr>currentStep := currentStep s - 1\<rparr>)
    \<and> (currentStep s = 4 \<longrightarrow> nextStep s = s \<and> next_click s = s)"
proof -
  have events: "0 \<le> currentStep (run evs s) \<and> currentStep (run evs s) \<le> 4"
    by (rule run_step_range [OF assms])
  have handlers:
    "(0 \<le> currentStep (nextStep s) \<and> currentStep (nextStep s) \<le> 4)
     \<and> (0 \<le> currentStep (prevStep s) \<and> currentStep (prevStep s) \<le> 4)
     \<and> (0 \<le> currentStep (resetWizard s) \<and> currentStep (resetWizard s) \<le> 4)
     \<and> (0 \<le> currentStep (setField k v s) \<and> currentStep (setField k v s) \<le> 4)"
    using assms by (simp add: nextStep_def prevStep_def resetWizard_def setField_def)
  have submit:
    "0 \<le> currentStep (generateSpeech fetch s) \<and> currentStep (generateSpeech fetch s) \<le> 4"
    using assms by (simp add: generateSpeech_def resume_step_range)
  have ends:
    "(currentStep s = 0 \<longrightarrow> prevStep s = s \<and> previous_click s = s)
     \<and> (currentStep s > 0 \<longrightarrow> prevStep s = s\<lparr>currentStep := currentStep s - 1\<rparr>)
     \<and> (currentStep s = 4 \<longrightarrow> nextStep s = s \<and> next_click s = s)"
    by (simp add: prevStep_def previous_click_def prev_rendered_def nextStep_def next_click_def
        next_rendered_def)
  from events handlers submit ends show ?thesis by blast
qed

theorem currentStep_in_range_witness:
  "previous_click initial_session = initial_session
   \<and> prevStep initial_session = initial_session
   \<and> nextStep (run first_speech initial_session) = run first_speech initial_session
   \<and> next_click (run first_speech initial_session) = run first_speech initial_session
   \<and> prevStep (run first_speech initial_session) = (run first_speech initial_session)\<lparr>currentStep := 3\<rparr>
   \<and> 0 \<le> currentStep (run second_round initial_session)
   \<and> currentStep (run second_round initial_session) \<le> 4"
proof -
  have zero: "currentStep initial_session = 0"
    by (simp add: initial_session_def)
  have four: "currentStep (run first_speech initial_session) = 4"
    by (simp add: result_session_eq)
  have first:
    "(0 \<le> currentStep (run second_round initial_session)
        \<and> currentStep (run second_round initial_session) \<le> 4)
     \<and> prevStep initial_session = initial_session
     \<and> previous_click initial_session = initial_session"
    using currentStep_in_range
      [where s = initial_session and evs = second_round and k = "''tone''" and v = "''urgent''"
         and fetch = "answering hello_response"]
      zero
    by simp
  have last:
    "prevStep (run first_speech initial_session) =
       (run first_speech initial_session)\<lparr>currentStep := 3\<rparr>
     \<and> nextStep (run first_speech initial_session) = run first_speech initial_session
     \<and> next_click (run first_speech initial_session) = run first_speech initial_session"
    using currentStep_in_range
      [where s = "run first_speech initial_session" and evs = "[]" and k = "''tone''"
         and v = "''urgent''" and fetch = "answering hello_response"]
      four
    by simp
  from first last show ?thesis by blast
qed

section \<open>The health check\<close>

text \<open>
  C9. \<open>testConnection\<close> does not read the status of the response. Whenever the body
  parses as JSON it returns the parsed body, whatever the status, and \<open>testAPI\<close> then
  reports a successful connection. It throws exactly when \<open>fetch\<close> rejects or the body
  does not parse.
\<close>

theorem testConnection_ignores_status:
  "(fetch health_request = Response status (Inr data) \<longrightarrow>
      testConnection fetch = Inr data \<and> testAPI fetch = ''API connection successful!'')
   \<and> ((\<exists>msg. testConnection fetch = Inl msg) =
        ((\<exists>msg. fetch health_request = Rejected msg)
         \<or> (\<exists>code msg. fetch health_request = Response code (Inl msg))))"
  by (cases "fetch health_request")
    (auto simp: testConnection_def testAPI_def split: sum.splits)

theorem testConnection_ignores_status_witness:
  "testConnection (answering (Response 500 (Inr (JObj [(''error'', JStr ''Internal Server Error'')])))) =
     Inr (JObj [(''error'', JStr ''Internal Server Error'')])
   \<and> testAPI (answering (Response 500 (Inr (JObj [(''error'', JStr ''Internal Server Error'')])))) =
     ''API connection successful!''"
  using testConnection_ignores_status
    [where fetch = "answering (Response 500 (Inr (JObj [(''error'', JStr ''Internal Server Error'')])))"
       and status = 500 and data = "JObj [(''error'', JStr ''Internal Server Error'')]"]
  by (simp add: answering_def)

section \<open>Starting again\<close>

text \<open>
  C10. After \<open>resetWizard\<close> the object \<open>wizardData\<close> has no property \<open>language\<close>,
  whatever it held before: reading it gives \<open>undefined\<close>. The request built from that
  object has \<open>undefined\<close> for \<open>language\<close>, and its body is written without that key.
\<close>

theorem resetWizard_drops_language:
  "wizardData (resetWizard s) ''language'' = None
   \<and> ''language'' \<notin> dom (wizardData (resetWizard s))
   \<and> map_of (request_payload (wizardData (resetWizard s))) ''language'' = Some None
   \<and> body (generate_request (wizardData (resetWizard s))) =
       Some (JObj [(''occasion'', JStr ''''), (''audience'', JStr ''''), (''tone'', JStr ''formal''),
                   (''length'', JStr ''5''), (''template'', JStr ''''), (''topic'', JStr ''''),
                   (''additional_context'', JStr '''')])"
  by (simp add: resetWizard_def request_payload_def generate_request_def)

theorem resetWizard_drops_language_witness:
  "wizardData (setField ''language'' ''dutch'' initial_session) ''language'' = Some ''dutch''
   \<and> wizardData (resetWizard (setField ''language'' ''dutch'' initial_session)) ''language'' = None"
  using resetWizard_drops_language [of "setField ''language'' ''dutch'' initial_session"]
  by (simp add: setField_def)

text \<open>
  C4. What \<open>resetWizard\<close> does where the claim fails: a speech is generated with the
  language left at \<open>english\<close>, and a click on Generate New Speech leads to step 0 with
  no result, no error and the other seven fields at their first values, but with
  \<open>language\<close> \<open>undefined\<close>.
\<close>

theorem new_speech_loses_language:
  "wizardData (run first_speech initial_session) ''language'' = Some ''english''
   \<and> run (first_speech @ [NewSpeech]) initial_session =
       \<lparr>currentStep = 0,
        wizardData =
          [''occasion'' \<mapsto> '''',
           ''audience'' \<mapsto> '''',
           ''tone'' \<mapsto> ''formal'',
           ''length'' \<mapsto> ''5'',
           ''template'' \<mapsto> '''',
           ''topic'' \<mapsto> '''',
           ''additionalContext'' \<mapsto> ''''],
        generatedSpeech = None,
        isLoading = False,
        error = None,
        pending = []\<rparr>
   \<and> wizardData (run (first_speech @ [NewSpeech]) initial_session) ''language'' = None"
  by (simp add: run_append result_session_eq review_session_eq initial_wizardData_def
      new_speech_click_def resetWizard_def)

section \<open>The request\<close>

text \<open>
  The request of \<open>speechAPI.generateSpeech\<close> when the six properties it reads without a
  default are strings: a POST to the path \<open>/api/generate-speech\<close> whose body has the
  eight keys, each with a string.
\<close>

lemma generate_request_complete:
  assumes "wd ''occasion'' = Some occasion" and "wd ''audience'' = Some audience"
    and "wd ''tone'' = Some tone" and "wd ''length'' = Some minutes"
    and "wd ''template'' = Some template" and "wd ''language'' = Some language"
  shows "generate_request wd =
     \<lparr>http_method = ''POST'',
      url = API_BASE_URL @ ''/api/generate-speech'',
      headers = [(''Content-Type'', ''application/json'')],
      body =
        Some (JObj [(''occasion'', JStr occasion),
                    (''audience'', JStr audience),
                    (''tone'', JStr tone),
                    (''length'', JStr minutes),
                    (''template'', JStr template),
                    (''topic'', JStr (or_empty (wd ''topic''))),
                    (''additional_context'', JStr (or_empty (wd ''additionalContext''))),
                    (''language'', JStr language)])\<rparr>"
  using assms by (simp add: generate_request_def request_payload_def)

text \<open>
  C6. What is sent where the claim fails: after Generate New Speech the wizard is filled
  in again without touching the language control, and the body of the request that the
  second click on Generate Speech sends has seven keys, none of them \<open>language\<close>.
\<close>

theorem second_request_has_no_language:
  "map generate_request (pending (run second_round initial_session)) =
     [\<lparr>http_method = ''POST'',
       url = ''https://pjdevos-speechcopilot-production.up.railway.app/api/generate-speech'',
       headers = [(''Content-Type'', ''application/json'')],
       body =
         Some (JObj [(''occasion'', JStr ''commemoration''),
                     (''audience'', JStr ''diplomats''),
                     (''tone'', JStr ''formal''),
                     (''length'', JStr ''5''),
                     (''template'', JStr ''commemorative''),
                     (''topic'', JStr ''''),
                     (''additional_context'', JStr '''')])\<rparr>]"
proof -
  have "run second_round initial_session =
        run [SetField ''occasion'' ''commemoration'', SetField ''audience'' ''diplomats'', Next, Next,
             SetField ''template'' ''commemorative'', Next, Generate]
          (resetWizard (run first_speech initial_session))"
    by (simp add: second_round_def run_append result_session_eq new_speech_click_def)
  then show ?thesis
    by (simp add: result_session_eq review_session_eq handler_defs click_defs
        generate_request_def request_payload_def API_BASE_URL_def)
qed

end
